theory Spec2Isabelle
  imports Complex_Main
begin

section \<open>JavaScript numbers\<close>

text \<open>
  A JavaScript number is an IEEE-754 double.  The model keeps the three non-finite
  values apart from the finite ones, because the claims below are about when the
  estimator hands \<open>NaN\<close> or an infinity to its caller.  A finite value is
  idealised as a real number: rounding, overflow, underflow and the sign of zero
  are not modelled (\<open>Num 0\<close> stands for both zeros and divides like \<open>+0\<close>).
  The statements about the position-based estimator below use only what the rounded
  operators share with the exact ones: the rules for the special values, the order in
  which the code applies the operators, commutativity of addition, and the fact that
  the operators never reverse an order.
\<close>

datatype jsnum = Num real | PosInf | NegInf | NaN

fun is_finite :: "jsnum \<Rightarrow> bool" where
  "is_finite (Num r) = True"
| "is_finite PosInf = False"
| "is_finite NegInf = False"
| "is_finite NaN = False"

fun js_neg :: "jsnum \<Rightarrow> jsnum" where
  "js_neg (Num a) = Num (- a)"
| "js_neg PosInf = NegInf"
| "js_neg NegInf = PosInf"
| "js_neg NaN = NaN"

fun js_add :: "jsnum \<Rightarrow> jsnum \<Rightarrow> jsnum" where
  "js_add NaN b = NaN"
| "js_add a NaN = NaN"
| "js_add PosInf NegInf = NaN"
| "js_add NegInf PosInf = NaN"
| "js_add PosInf b = PosInf"
| "js_add NegInf b = NegInf"
| "js_add a PosInf = PosInf"
| "js_add a NegInf = NegInf"
| "js_add (Num a) (Num b) = Num (a + b)"

fun js_sub :: "jsnum \<Rightarrow> jsnum \<Rightarrow> jsnum" where
  "js_sub NaN b = NaN"
| "js_sub a NaN = NaN"
| "js_sub PosInf PosInf = NaN"
| "js_sub NegInf NegInf = NaN"
| "js_sub PosInf b = PosInf"
| "js_sub NegInf b = NegInf"
| "js_sub a PosInf = NegInf"
| "js_sub a NegInf = PosInf"
| "js_sub (Num a) (Num b) = Num (a - b)"

fun js_mul :: "jsnum \<Rightarrow> jsnum \<Rightarrow> jsnum" where
  "js_mul NaN b = NaN"
| "js_mul a NaN = NaN"
| "js_mul PosInf PosInf = PosInf"
| "js_mul PosInf NegInf = NegInf"
| "js_mul NegInf PosInf = NegInf"
| "js_mul NegInf NegInf = PosInf"
| "js_mul PosInf (Num b) = (if b = 0 then NaN else if 0 < b then PosInf else NegInf)"
| "js_mul NegInf (Num b) = (if b = 0 then NaN else if 0 < b then NegInf else PosInf)"
| "js_mul (Num a) PosInf = (if a = 0 then NaN else if 0 < a then PosInf else NegInf)"
| "js_mul (Num a) NegInf = (if a = 0 then NaN else if 0 < a then NegInf else PosInf)"
| "js_mul (Num a) (Num b) = Num (a * b)"

fun js_div :: "jsnum \<Rightarrow> jsnum \<Rightarrow> jsnum" where
  "js_div NaN b = NaN"
| "js_div a NaN = NaN"
| "js_div PosInf PosInf = NaN"
| "js_div PosInf NegInf = NaN"
| "js_div NegInf PosInf = NaN"
| "js_div NegInf NegInf = NaN"
| "js_div PosInf (Num b) = (if 0 \<le> b then PosInf else NegInf)"
| "js_div NegInf (Num b) = (if 0 \<le> b then NegInf else PosInf)"
| "js_div (Num a) PosInf = Num 0"
| "js_div (Num a) NegInf = Num 0"
| "js_div (Num a) (Num b) =
     (if b = 0 then (if a = 0 then NaN else if 0 < a then PosInf else NegInf)
      else Num (a / b))"

text \<open>\<open>Math.sqrt\<close>.\<close>

fun js_sqrt :: "jsnum \<Rightarrow> jsnum" where
  "js_sqrt (Num a) = (if a < 0 then NaN else Num (sqrt a))"
| "js_sqrt PosInf = PosInf"
| "js_sqrt NegInf = NaN"
| "js_sqrt NaN = NaN"

text \<open>The relational operator \<open><\<close>: false as soon as one side is \<open>NaN\<close>.\<close>

fun js_lt :: "jsnum \<Rightarrow> jsnum \<Rightarrow> bool" where
  "js_lt NaN b = False"
| "js_lt a NaN = False"
| "js_lt a NegInf = False"
| "js_lt PosInf b = False"
| "js_lt NegInf b = True"
| "js_lt a PosInf = True"
| "js_lt (Num a) (Num b) = (a < b)"

text \<open>
  Reading an array of numbers at an index.  Out of range JavaScript yields
  \<open>undefined\<close>, which every arithmetic operator converts to \<open>NaN\<close>; the
  arrays of this program are only ever read into arithmetic.
\<close>

definition js_index :: "jsnum list \<Rightarrow> nat \<Rightarrow> jsnum" where
  "js_index xs i = (if i < length xs then xs ! i else NaN)"

section \<open>Geometry\<close>

text \<open>An ECEF position, the object \<open>{x, y, z}\<close> that \<open>lla2ecef\<close> returns.\<close>

record ecef =
  x :: jsnum
  y :: jsnum
  z :: jsnum

text \<open>
  Modelled from the spec: \<open>norm\<close> of \<open>node/geometry.js\<close>, which is not among
  the sources.  The spec gives it as the Euclidean length \<open>sqrt(x\<^sup>2+y\<^sup>2+z\<^sup>2)\<close> of a
  3-vector; the callers pass an array literal of three numbers.
\<close>

definition norm_js :: "jsnum list \<Rightarrow> jsnum" where
  "norm_js v =
     js_sqrt (js_add (js_add (js_mul (js_index v 0) (js_index v 0))
                             (js_mul (js_index v 1) (js_index v 1)))
                     (js_mul (js_index v 2) (js_index v 2)))"

section \<open>The position-based Doppler estimator\<close>

text \<open>
  \<open>calculatePositionBasedDoppler\<close> of \<open>analyze_discrepancy.js\<close>.  The callback of
  \<open>positions.map\<close> is \<open>delay_of\<close>, the mapped array is \<open>delays_of\<close>.  The value
  \<open>null\<close> is \<open>None\<close>.  The function has no \<open>throw\<close>, and on arguments of these
  types no operation of its body raises.
\<close>

definition delay_of :: "ecef \<Rightarrow> ecef \<Rightarrow> jsnum \<Rightarrow> ecef \<Rightarrow> jsnum" where
  "delay_of ecefRx ecefTx dRxTx pos =
     (let dRxTar = norm_js [js_sub (x ecefRx) (x pos), js_sub (y ecefRx) (y pos),
                            js_sub (z ecefRx) (z pos)];
          dTxTar = norm_js [js_sub (x ecefTx) (x pos), js_sub (y ecefTx) (y pos),
                            js_sub (z ecefTx) (z pos)]
      in js_sub (js_add dRxTar dTxTar) dRxTx)"

definition delays_of :: "ecef list \<Rightarrow> ecef \<Rightarrow> ecef \<Rightarrow> jsnum \<Rightarrow> jsnum list" where
  "delays_of positions ecefRx ecefTx dRxTx = map (delay_of ecefRx ecefTx dRxTx) positions"

definition calculatePositionBasedDoppler ::
  "ecef list \<Rightarrow> jsnum list \<Rightarrow> ecef \<Rightarrow> ecef \<Rightarrow> jsnum \<Rightarrow> jsnum \<Rightarrow> jsnum option" where
  "calculatePositionBasedDoppler positions timestamps ecefRx ecefTx dRxTx fc =
     (if length positions < 2 then None
      else
        let delays = delays_of positions ecefRx ecefTx dRxTx;
            n = length delays;
            dt = js_sub (js_index timestamps (n - 1)) (js_index timestamps (n - 2));
            dd = js_sub (js_index delays (n - 1)) (js_index delays (n - 2));
            range_rate = js_div dd dt;
            wavelength = js_div (Num 299792458) (js_mul fc (Num 1000000))
        in Some (js_div (js_neg range_rate) wavelength))"

section \<open>The estimator as the spec words it\<close>

text \<open>
  The spec's \<open>range(a, b)\<close>: the Euclidean distance of two ECEF points, taken as
  the vector norm of their difference.
\<close>

definition range_spec :: "ecef \<Rightarrow> ecef \<Rightarrow> jsnum" where
  "range_spec a b = norm_js [js_sub (x a) (x b), js_sub (y a) (y b), js_sub (z a) (z b)]"

text \<open>
  The spec's finite difference \<open>(delay[last] - delay[prev]) / (t[last] - t[prev])\<close>,
  its wavelength \<open>c / (carrierFreqMHz * 1e6)\<close> with \<open>c = 299792458\<close>, and the
  total bistatic path length of a sample, \<open>range(Rx, pos) + range(Tx, pos)\<close>.
\<close>

definition rangeRate_spec :: "jsnum \<Rightarrow> jsnum \<Rightarrow> jsnum \<Rightarrow> jsnum \<Rightarrow> jsnum" where
  "rangeRate_spec delay_last delay_prev t_last t_prev =
     js_div (js_sub delay_last delay_prev) (js_sub t_last t_prev)"

definition wavelength_spec :: "jsnum \<Rightarrow> jsnum" where
  "wavelength_spec fc = js_div (Num 299792458) (js_mul fc (Num 1000000))"


text \<open>
  The spec's \<open>PositionSample\<close>, a position with its timestamp; a history is a list
  of samples, oldest first.
\<close>

record position_sample =
  sample_position :: ecef
  sample_timestamp :: jsnum

text \<open>
  The spec's estimator: unavailable on fewer than two samples; otherwise the excess
  bistatic delay path \<open>range(Rx, pos) + range(Tx, pos) - baselineRxTx\<close> of the two
  most recent samples, their finite difference over the two timestamps, and
  \<open>doppler = -rangeRate / wavelength\<close>.
\<close>

definition excess_delay_spec :: "ecef \<Rightarrow> ecef \<Rightarrow> jsnum \<Rightarrow> ecef \<Rightarrow> jsnum" where
  "excess_delay_spec rx tx baselineRxTx pos =
     js_sub (js_add (range_spec rx pos) (range_spec tx pos)) baselineRxTx"

definition estimate_spec ::
  "position_sample list \<Rightarrow> ecef \<Rightarrow> ecef \<Rightarrow> jsnum \<Rightarrow> jsnum \<Rightarrow> jsnum option" where
  "estimate_spec history rx tx baselineRxTx carrierFreqMHz =
     (case rev history of
        last_sample # prev_sample # earlier \<Rightarrow>
          Some (js_div
                  (js_neg (rangeRate_spec
                     (excess_delay_spec rx tx baselineRxTx (sample_position last_sample))
                     (excess_delay_spec rx tx baselineRxTx (sample_position prev_sample))
                     (sample_timestamp last_sample) (sample_timestamp prev_sample)))
                  (wavelength_spec carrierFreqMHz))
      | _ \<Rightarrow> None)"

section \<open>The synthetic trajectory\<close>

text \<open>\<open>Math.sin\<close>, \<open>Math.cos\<close> and \<open>Math.PI\<close>.\<close>

fun js_sin :: "jsnum \<Rightarrow> jsnum" where
  "js_sin (Num a) = Num (sin a)"
| "js_sin PosInf = NaN"
| "js_sin NegInf = NaN"
| "js_sin NaN = NaN"

fun js_cos :: "jsnum \<Rightarrow> jsnum" where
  "js_cos (Num a) = Num (cos a)"
| "js_cos PosInf = NaN"
| "js_cos NegInf = NaN"
| "js_cos NaN = NaN"

definition Math_PI :: jsnum where
  "Math_PI = Num pi"

text \<open>
  Modelled from the spec: \<open>ft2m\<close> of \<open>node/geometry.js\<close>, which is not among
  the sources.  The spec gives it as multiplication by 0.3048.
\<close>

definition ft2m :: "jsnum \<Rightarrow> jsnum" where
  "ft2m ft = js_mul ft (Num 0.3048)"

text \<open>
  The constants of the scenario in \<open>analyze_discrepancy.js\<close>: ground speed in knots,
  track in degrees clockwise from true north, altitude in feet, and the starting
  latitude and longitude in degrees.
\<close>

definition gs :: jsnum where "gs = Num 88.5"
definition track :: jsnum where "track = Num 270"
definition alt :: jsnum where "alt = Num 30100"
definition lat :: jsnum where "lat = Num (- 35.0)"
definition lon :: jsnum where "lon = Num 138.65"

text \<open>
  The body of the loop \<open>for (let t = 0; t <= 10; t++)\<close>: the offset and the new
  longitude of the sample at second \<open>t\<close>, then the loop itself, which pushes one
  position and one timestamp per iteration.  \<open>lla2ecef\<close> of
  \<open>node/geometry.js\<close> is not among the sources and is a parameter.
\<close>

definition offset_at :: "nat \<Rightarrow> jsnum" where
  "offset_at t = js_div (js_mul (js_mul gs (Num 0.514444)) (Num (real t))) (Num 111320)"

definition new_lon_at :: "nat \<Rightarrow> jsnum" where
  "new_lon_at t =
     js_add lon (js_div (offset_at t) (js_cos (js_div (js_mul lat Math_PI) (Num 180))))"

function trajectory_loop ::
  "(jsnum \<Rightarrow> jsnum \<Rightarrow> jsnum \<Rightarrow> ecef) \<Rightarrow> nat \<Rightarrow> ecef list \<Rightarrow> jsnum list
     \<Rightarrow> ecef list \<times> jsnum list" where
  "trajectory_loop lla2ecef t positions timestamps =
     (if t \<le> 10
      then trajectory_loop lla2ecef (t + 1)
             (positions @ [lla2ecef lat (new_lon_at t) (ft2m alt)])
             (timestamps @ [Num (real t)])
      else (positions, timestamps))"
  by pat_completeness auto
termination
  by (relation "measure (\<lambda>(lla2ecef, t, positions, timestamps). 11 - t)") auto

definition trajectory ::
  "(jsnum \<Rightarrow> jsnum \<Rightarrow> jsnum \<Rightarrow> ecef) \<Rightarrow> ecef list \<times> jsnum list" where
  "trajectory lla2ecef = trajectory_loop lla2ecef 0 [] []"

section \<open>The velocity-based Doppler estimator\<close>

text \<open>
  The aircraft record as the spec's data model has it: the kinematic fields are
  optional.
\<close>

record geodetic =
  latitude_deg :: jsnum
  longitude_deg :: jsnum
  altitude_m :: jsnum

record aircraft_state =
  ident :: string
  position :: geodetic
  ground_speed_kn :: "jsnum option"
  track_deg :: "jsnum option"
  vertical_rate_fpm :: "jsnum option"

text \<open>
  The pieces of the spec's algorithm: degrees to radians, the dot product of two
  3-vectors, the standard rotation of an East-North-Up vector into ECEF at a given
  latitude and longitude, and the unit direction between two points with the range
  supplied by the caller.
\<close>

definition deg2rad :: "jsnum \<Rightarrow> jsnum" where
  "deg2rad d = js_div (js_mul d Math_PI) (Num 180)"

definition dot3 :: "jsnum \<times> jsnum \<times> jsnum \<Rightarrow> jsnum \<times> jsnum \<times> jsnum \<Rightarrow> jsnum" where
  "dot3 u v =
     (case (u, v) of ((ux, uy, uz), (vx, vy, vz)) \<Rightarrow>
        js_add (js_add (js_mul ux vx) (js_mul uy vy)) (js_mul uz vz))"

definition enu2ecef :: "jsnum \<Rightarrow> jsnum \<Rightarrow> jsnum \<times> jsnum \<times> jsnum \<Rightarrow> jsnum \<times> jsnum \<times> jsnum" where
  "enu2ecef lat_rad lon_rad enu =
     (case enu of (e, n, u) \<Rightarrow>
        (js_add (js_sub (js_mul (js_neg (js_sin lon_rad)) e)
                        (js_mul (js_mul (js_sin lat_rad) (js_cos lon_rad)) n))
                (js_mul (js_mul (js_cos lat_rad) (js_cos lon_rad)) u),
         js_add (js_sub (js_mul (js_cos lon_rad) e)
                        (js_mul (js_mul (js_sin lat_rad) (js_sin lon_rad)) n))
                (js_mul (js_mul (js_cos lat_rad) (js_sin lon_rad)) u),
         js_add (js_mul (js_cos lat_rad) n) (js_mul (js_sin lat_rad) u)))"

definition unitDirection :: "ecef \<Rightarrow> ecef \<Rightarrow> jsnum \<Rightarrow> jsnum \<times> jsnum \<times> jsnum" where
  "unitDirection origin target d =
     (js_div (js_sub (x target) (x origin)) d, js_div (js_sub (y target) (y origin)) d,
      js_div (js_sub (z target) (z origin)) d)"

text \<open>
  Modelled from the spec: \<open>calculateDopplerFromVelocity\<close> of \<open>node/doppler.js\<close>,
  which is not among the sources (only its callers are).  The spec's section on the
  velocity-based estimator gives the algorithm: unavailable when ground speed or track
  is absent; otherwise the East-North-Up velocity from ground speed (knots times
  0.514444), track and vertical rate (feet per minute times 0.00508, 0 when absent),
  rotated into ECEF at the target's latitude and longitude, projected on the sum of the
  unit vectors from the target to Rx and to Tx (with the ranges the caller supplies),
  negated to the range rate, and \<open>doppler = -rangeRate / wavelength\<close>.
\<close>

definition calculateDopplerFromVelocity ::
  "aircraft_state \<Rightarrow> ecef \<Rightarrow> ecef \<Rightarrow> ecef \<Rightarrow> jsnum \<Rightarrow> jsnum \<Rightarrow> jsnum \<Rightarrow> jsnum option" where
  "calculateDopplerFromVelocity aircraft aircraft_ecef ecefRx ecefTx dRxTar dTxTar fc =
     (case ground_speed_kn aircraft of
        None \<Rightarrow> None
      | Some speed_kn \<Rightarrow>
         (case track_deg aircraft of
            None \<Rightarrow> None
          | Some trk \<Rightarrow>
              let v = js_mul speed_kn (Num 0.514444);
                  east = js_mul v (js_sin (deg2rad trk));
                  north = js_mul v (js_cos (deg2rad trk));
                  up = (case vertical_rate_fpm aircraft of
                          None \<Rightarrow> Num 0
                        | Some rate \<Rightarrow> js_mul rate (Num 0.00508));
                  velocityECEF = enu2ecef (deg2rad (latitude_deg (position aircraft)))
                                   (deg2rad (longitude_deg (position aircraft))) (east, north, up);
                  uRx = unitDirection aircraft_ecef ecefRx dRxTar;
                  uTx = unitDirection aircraft_ecef ecefTx dTxTar;
                  uSum = (case (uRx, uTx) of ((ax, ay, az), (bx, by, bz)) \<Rightarrow>
                            (js_add ax bx, js_add ay by, js_add az bz));
                  range_rate = js_neg (dot3 velocityECEF uSum);
                  wavelength = wavelength_spec fc
              in Some (js_div (js_neg range_rate) wavelength)))"

section \<open>Auxiliary facts\<close>

lemma js_add_commute: "js_add a b = js_add b a"
  by (cases a; cases b) simp_all

lemma delay_of_range:
  "delay_of rx tx d p = js_sub (js_add (range_spec rx p) (range_spec tx p)) d"
  by (simp add: delay_of_def range_spec_def)

lemma length_delays_of: "length (delays_of ps rx tx d) = length ps"
  by (simp add: delays_of_def)

lemma index_delays_of:
  "i < length ps \<Longrightarrow> js_index (delays_of ps rx tx d) i = delay_of rx tx d (ps ! i)"
  by (simp add: delays_of_def js_index_def)

lemma doppler_unfold:
  assumes "2 \<le> length ps"
  shows "calculatePositionBasedDoppler ps ts rx tx d fc =
    Some (js_div (js_neg (rangeRate_spec (delay_of rx tx d (ps ! (length ps - 1)))
                                         (delay_of rx tx d (ps ! (length ps - 2)))
                                         (js_index ts (length ps - 1))
                                         (js_index ts (length ps - 2))))
                 (wavelength_spec fc))"
proof -
  have "length ps - 1 < length ps" "length ps - 2 < length ps"
    using assms by simp_all
  then show ?thesis
    using assms
    by (simp add: calculatePositionBasedDoppler_def Let_def length_delays_of
        index_delays_of rangeRate_spec_def wavelength_spec_def)
qed

lemma sqrt_25: "sqrt 25 = 5"
  using real_sqrt_abs [of 5] by simp

lemma sqrt_169: "sqrt 169 = 13"
  using real_sqrt_abs [of 13] by simp

lemma delay_of_commute: "delay_of rx tx d p = delay_of tx rx d p"
  by (simp add: delay_of_def Let_def js_add_commute)

lemma delay_of_excess: "delay_of rx tx d p = excess_delay_spec rx tx d p"
  by (simp add: delay_of_range excess_delay_spec_def)

lemma nth_last_two:
  "(xs @ [b, a]) ! (length (xs @ [b, a]) - 1) = a"
  "(xs @ [b, a]) ! (length (xs @ [b, a]) - 2) = b"
  by (simp_all add: nth_append)

lemma estimate_refines_snoc:
  "calculatePositionBasedDoppler (map sample_position (hs @ [p, l]))
     (map sample_timestamp (hs @ [p, l])) rx tx d fc =
   estimate_spec (hs @ [p, l]) rx tx d fc"
proof -
  let ?ps = "map sample_position hs @ [sample_position p, sample_position l]"
  let ?ts = "map sample_timestamp hs @ [sample_timestamp p, sample_timestamp l]"
  have len: "2 \<le> length ?ps" by simp
  have i1: "js_index ?ts (length ?ps - 1) = sample_timestamp l"
    by (simp add: js_index_def nth_append)
  have i2: "js_index ?ts (length ?ps - 2) = sample_timestamp p"
    by (simp add: js_index_def nth_append)
  have "calculatePositionBasedDoppler ?ps ?ts rx tx d fc =
    Some (js_div (js_neg (rangeRate_spec (excess_delay_spec rx tx d (sample_position l))
                                         (excess_delay_spec rx tx d (sample_position p))
                                         (sample_timestamp l) (sample_timestamp p)))
                 (wavelength_spec fc))"
    unfolding doppler_unfold [OF len] nth_last_two i1 i2 delay_of_excess ..
  then show ?thesis
    by (simp add: estimate_spec_def)
qed

lemma js_sub_self: "js_sub t t = Num 0 \<or> js_sub t t = NaN"
  by (cases t) simp_all

lemma js_div_zero_nonfinite: "\<not> is_finite (js_div a (Num 0))"
  by (cases a) simp_all

lemma js_div_NaN: "js_div a NaN = NaN"
  by (cases a) simp_all

lemma js_div_nonfinite: "\<not> is_finite a \<Longrightarrow> \<not> is_finite (js_div (js_neg a) w)"
  by (cases a; cases w) simp_all

lemma degenerate_rate_nonfinite: "\<not> is_finite (rangeRate_spec a b t t)"
  using js_sub_self [of t]
  by (auto simp add: rangeRate_spec_def js_div_zero_nonfinite js_div_NaN)









lemma cos_lat_pos: "0 < cos (- (35 * pi) / 180)"
proof (rule cos_gt_zero_pi)
  show "- (pi / 2) < - (35 * pi) / 180"
    using pi_gt_zero by linarith
  show "- (35 * pi) / 180 < pi / 2"
    using pi_gt_zero by linarith
qed

lemma new_lon_at_value:
  "new_lon_at t = Num (138.65 + 88.5 * 0.514444 * real t / 111320 / cos (- (35 * pi) / 180))"
  using cos_lat_pos
  by (simp add: new_lon_at_def offset_at_def gs_def lat_def lon_def Math_PI_def)

lemma trajectory_loop_closed:
  "t \<le> 11 \<Longrightarrow>
   trajectory_loop f t ps ts =
     (ps @ map (\<lambda>k. f lat (new_lon_at k) (ft2m alt)) [t..<11],
      ts @ map (\<lambda>k. Num (real k)) [t..<11])"
proof (induction f t ps ts rule: trajectory_loop.induct)
  case (1 f t ps ts)
  show ?case
  proof (cases "t \<le> 10")
    case True
    then have "[t..<11] = t # [t + 1..<11]"
      by (simp add: upt_conv_Cons)
    with True "1.IH" show ?thesis
      by (subst trajectory_loop.simps) simp
  next
    case False
    with "1.prems" have "t = 11" by simp
    then show ?thesis
      by (subst trajectory_loop.simps) simp
  qed
qed

section \<open>Short histories\<close>

text \<open>
  Claim C4.  On a history of no sample or of one sample the position-based estimator
  returns \<open>null\<close>, whatever the timestamps, the station positions, the baseline range
  and the carrier frequency are.
\<close>

theorem short_history_unavailable:
  "length positions < 2 \<Longrightarrow>
   calculatePositionBasedDoppler positions timestamps ecefRx ecefTx dRxTx fc = None"
  by (simp add: calculatePositionBasedDoppler_def)

theorem short_history_unavailable_witness:
  "length [\<lparr>x = Num 3, y = Num 4, z = Num 0\<rparr>] < 2 \<and>
   calculatePositionBasedDoppler [\<lparr>x = Num 3, y = Num 4, z = Num 0\<rparr>] [Num 7]
     \<lparr>x = Num 0, y = Num 0, z = Num 0\<rparr> \<lparr>x = Num 1, y = Num 0, z = Num 0\<rparr>
     (Num 1) (Num 204.64) = None"
  using short_history_unavailable
    [of "[\<lparr>x = Num 3, y = Num 4, z = Num 0\<rparr>]" "[Num 7]"
        "\<lparr>x = Num 0, y = Num 0, z = Num 0\<rparr>" "\<lparr>x = Num 1, y = Num 0, z = Num 0\<rparr>"
        "Num 1" "Num 204.64"]
  by simp

section \<open>The delays\<close>

text \<open>
  Claim C2.  For every sample \<open>i\<close> of the history the estimator's array of delays
  holds \<open>range(Rx, pos[i]) + range(Tx, pos[i]) - dRxTx\<close>, with \<open>range\<close> the norm of
  the difference of the two points and \<open>dRxTx\<close> the baseline the caller passes, and
  the value the estimator returns on two or more samples is computed from the last two
  entries of exactly that array.
\<close>

theorem estimator_delays_excess_path:
  "(\<forall>i < length positions.
      js_index (delays_of positions ecefRx ecefTx dRxTx) i =
        js_sub (js_add (range_spec ecefRx (positions ! i)) (range_spec ecefTx (positions ! i)))
               dRxTx) \<and>
   calculatePositionBasedDoppler positions timestamps ecefRx ecefTx dRxTx fc =
     (if length positions < 2 then None
      else Some (js_div
        (js_neg (js_div
           (js_sub
              (js_index (map (\<lambda>pos. js_sub (js_add (range_spec ecefRx pos) (range_spec ecefTx pos))
                                           dRxTx) positions) (length positions - 1))
              (js_index (map (\<lambda>pos. js_sub (js_add (range_spec ecefRx pos) (range_spec ecefTx pos))
                                           dRxTx) positions) (length positions - 2)))
           (js_sub (js_index timestamps (length positions - 1))
                   (js_index timestamps (length positions - 2)))))
        (js_div (Num 299792458) (js_mul fc (Num 1000000)))))"
proof -
  have "delays_of positions ecefRx ecefTx dRxTx =
        map (\<lambda>pos. js_sub (js_add (range_spec ecefRx pos) (range_spec ecefTx pos)) dRxTx)
          positions"
    by (simp add: delays_of_def delay_of_range)
  then show ?thesis
    by (simp add: calculatePositionBasedDoppler_def Let_def js_index_def)
qed

theorem estimator_delays_excess_path_witness:
  "js_index (delays_of
       [\<lparr>x = Num 3, y = Num 4, z = Num 0\<rparr>, \<lparr>x = Num 3, y = Num (- 4), z = Num 12\<rparr>]
       \<lparr>x = Num 0, y = Num 0, z = Num 0\<rparr> \<lparr>x = Num 6, y = Num 0, z = Num 0\<rparr> (Num 6)) 1
     = Num 20 \<and>
   calculatePositionBasedDoppler
     [\<lparr>x = Num 3, y = Num 4, z = Num 0\<rparr>, \<lparr>x = Num 3, y = Num (- 4), z = Num 12\<rparr>]
     [Num 10, Num 12]
     \<lparr>x = Num 0, y = Num 0, z = Num 0\<rparr> \<lparr>x = Num 6, y = Num 0, z = Num 0\<rparr>
     (Num 6) (Num 204.64) =
   Some (js_div (Num (- 8)) (js_div (Num 299792458) (js_mul (Num 204.64) (Num 1000000))))"
proof -
  note inst = estimator_delays_excess_path
    [of "[\<lparr>x = Num 3, y = Num 4, z = Num 0\<rparr>, \<lparr>x = Num 3, y = Num (- 4), z = Num 12\<rparr>]"
        "\<lparr>x = Num 0, y = Num 0, z = Num 0\<rparr>" "\<lparr>x = Num 6, y = Num 0, z = Num 0\<rparr>" "Num 6"
        "[Num 10, Num 12]" "Num 204.64"]
  have r0: "range_spec \<lparr>x = Num 0, y = Num 0, z = Num 0\<rparr> \<lparr>x = Num 3, y = Num 4, z = Num 0\<rparr> = Num 5"
    "range_spec \<lparr>x = Num 6, y = Num 0, z = Num 0\<rparr> \<lparr>x = Num 3, y = Num 4, z = Num 0\<rparr> = Num 5"
    "range_spec \<lparr>x = Num 0, y = Num 0, z = Num 0\<rparr> \<lparr>x = Num 3, y = Num (- 4), z = Num 12\<rparr> = Num 13"
    "range_spec \<lparr>x = Num 6, y = Num 0, z = Num 0\<rparr> \<lparr>x = Num 3, y = Num (- 4), z = Num 12\<rparr> = Num 13"
    by (simp_all add: range_spec_def norm_js_def js_index_def sqrt_25 sqrt_169)
  from inst [THEN conjunct1, THEN spec, of 1] have a: "js_index (delays_of
       [\<lparr>x = Num 3, y = Num 4, z = Num 0\<rparr>, \<lparr>x = Num 3, y = Num (- 4), z = Num 12\<rparr>]
       \<lparr>x = Num 0, y = Num 0, z = Num 0\<rparr> \<lparr>x = Num 6, y = Num 0, z = Num 0\<rparr> (Num 6)) 1
     = Num 20"
    by (simp add: r0)
  from inst [THEN conjunct2] have b: "calculatePositionBasedDoppler
     [\<lparr>x = Num 3, y = Num 4, z = Num 0\<rparr>, \<lparr>x = Num 3, y = Num (- 4), z = Num 12\<rparr>]
     [Num 10, Num 12]
     \<lparr>x = Num 0, y = Num 0, z = Num 0\<rparr> \<lparr>x = Num 6, y = Num 0, z = Num 0\<rparr>
     (Num 6) (Num 204.64) =
   Some (js_div (Num (- 8)) (js_div (Num 299792458) (js_mul (Num 204.64) (Num 1000000))))"
    by (simp add: r0 js_index_def)
  from a b show ?thesis by (rule conjI)
qed

section \<open>The Doppler formula\<close>

text \<open>
  Claim C3.  On every history the estimator of the source, given the positions and the
  timestamps of the samples as its two arrays, returns what the spec's estimator
  returns: \<open>-rangeRate / wavelength\<close>, where \<open>rangeRate\<close> is the difference of the
  delays of the two most recent samples over the difference of their timestamps and
  \<open>wavelength\<close> is \<open>299792458 / (fc * 1e6)\<close>.  In particular this holds for
  histories of two or more samples with distinct last timestamps and a positive
  carrier frequency.
\<close>

theorem estimator_refines_spec:
  "calculatePositionBasedDoppler (map sample_position history)
     (map sample_timestamp history) ecefRx ecefTx dRxTx fc =
   estimate_spec history ecefRx ecefTx dRxTx fc"
proof (cases "rev history")
  case Nil
  then show ?thesis
    by (simp add: calculatePositionBasedDoppler_def estimate_spec_def)
next
  case (Cons l r)
  note outer = Cons
  show ?thesis
  proof (cases r)
    case Nil
    with outer have "history = [l]" by (simp add: rev_singleton_conv)
    then show ?thesis
      by (simp add: calculatePositionBasedDoppler_def estimate_spec_def)
  next
    case (Cons p e)
    with outer have "rev history = l # p # e" by simp
    then have "history = rev e @ [p, l]"
      by (simp add: rev_eq_Cons_iff)
    then show ?thesis
      using estimate_refines_snoc [of "rev e" p l] by simp
  qed
qed

section \<open>Equal timestamps\<close>

text \<open>
  Claim C1 says that the estimator fails with an explicit error when the last two
  timestamps are equal and never hands \<open>NaN\<close> or an infinity to its caller.  The
  function has no such check: on the two samples below, both stamped 10, the delays are
  4 and 20, the division by the zero time step gives \<open>Infinity\<close>, and the caller
  receives \<open>-Infinity\<close>.
\<close>

theorem equal_timestamps_counterexample:
  "calculatePositionBasedDoppler
     [\<lparr>x = Num 3, y = Num 4, z = Num 0\<rparr>, \<lparr>x = Num 3, y = Num (- 4), z = Num 12\<rparr>]
     [Num 10, Num 10]
     \<lparr>x = Num 0, y = Num 0, z = Num 0\<rparr> \<lparr>x = Num 6, y = Num 0, z = Num 0\<rparr>
     (Num 6) (Num 204.64) = Some NegInf"
  by (simp add: calculatePositionBasedDoppler_def delays_of_def delay_of_def norm_js_def
      js_index_def sqrt_25 sqrt_169)

text \<open>
  Claim C1, amended.  On a history of two or more samples whose last two timestamps
  are equal, the estimator raises nothing and returns a number that is not finite:
  \<open>NaN\<close>, \<open>Infinity\<close> or \<open>-Infinity\<close>.
\<close>

theorem equal_timestamps_nonfinite:
  assumes "2 \<le> length positions"
    and "js_index timestamps (length positions - 1) = js_index timestamps (length positions - 2)"
  shows "case calculatePositionBasedDoppler positions timestamps ecefRx ecefTx dRxTx fc of
           None \<Rightarrow> False
         | Some v \<Rightarrow> \<not> is_finite v"
  unfolding doppler_unfold [OF assms(1)] assms(2)
  by (simp add: js_div_nonfinite degenerate_rate_nonfinite)

theorem equal_timestamps_nonfinite_witness:
  "case calculatePositionBasedDoppler
     [\<lparr>x = Num 3, y = Num 4, z = Num 0\<rparr>, \<lparr>x = Num 3, y = Num (- 4), z = Num 12\<rparr>]
     [Num 10, Num 10]
     \<lparr>x = Num 0, y = Num 0, z = Num 0\<rparr> \<lparr>x = Num 6, y = Num 0, z = Num 0\<rparr>
     (Num 6) (Num 204.64) of None \<Rightarrow> False | Some v \<Rightarrow> \<not> is_finite v"
  using equal_timestamps_nonfinite
    [of "[\<lparr>x = Num 3, y = Num 4, z = Num 0\<rparr>, \<lparr>x = Num 3, y = Num (- 4), z = Num 12\<rparr>]"
        "[Num 10, Num 10]"
        "\<lparr>x = Num 0, y = Num 0, z = Num 0\<rparr>" "\<lparr>x = Num 6, y = Num 0, z = Num 0\<rparr>" "Num 6"
        "Num 204.64"]
  by (simp add: js_index_def)

section \<open>Sign convention\<close>




section \<open>Dependence on the inputs\<close>

text \<open>
  Claim C9.  Two histories of at least two samples that agree on their last two
  positions and their last two timestamps give the same result, for the same stations,
  baseline and carrier frequency: nothing before the last two samples is used.
\<close>

theorem last_two_samples_only:
  assumes "2 \<le> length positions" "2 \<le> length positions'"
    and "positions ! (length positions - 1) = positions' ! (length positions' - 1)"
    and "positions ! (length positions - 2) = positions' ! (length positions' - 2)"
    and "js_index timestamps (length positions - 1) = js_index timestamps' (length positions' - 1)"
    and "js_index timestamps (length positions - 2) = js_index timestamps' (length positions' - 2)"
  shows "calculatePositionBasedDoppler positions timestamps ecefRx ecefTx dRxTx fc =
         calculatePositionBasedDoppler positions' timestamps' ecefRx ecefTx dRxTx fc"
  unfolding doppler_unfold [OF assms(1)] doppler_unfold [OF assms(2)] assms(3,4,5,6) ..

theorem last_two_samples_only_witness:
  "calculatePositionBasedDoppler
     [\<lparr>x = Num 100, y = Num 200, z = Num 300\<rparr>,
      \<lparr>x = Num 3, y = Num 4, z = Num 0\<rparr>, \<lparr>x = Num 3, y = Num (- 4), z = Num 12\<rparr>]
     [Num 1, Num 10, Num 12]
     \<lparr>x = Num 0, y = Num 0, z = Num 0\<rparr> \<lparr>x = Num 6, y = Num 0, z = Num 0\<rparr>
     (Num 6) (Num 204.64) =
   calculatePositionBasedDoppler
     [\<lparr>x = Num 3, y = Num 4, z = Num 0\<rparr>, \<lparr>x = Num 3, y = Num (- 4), z = Num 12\<rparr>]
     [Num 10, Num 12]
     \<lparr>x = Num 0, y = Num 0, z = Num 0\<rparr> \<lparr>x = Num 6, y = Num 0, z = Num 0\<rparr>
     (Num 6) (Num 204.64)"
  using last_two_samples_only
    [of "[\<lparr>x = Num 100, y = Num 200, z = Num 300\<rparr>,
          \<lparr>x = Num 3, y = Num 4, z = Num 0\<rparr>, \<lparr>x = Num 3, y = Num (- 4), z = Num 12\<rparr>]"
        "[\<lparr>x = Num 3, y = Num 4, z = Num 0\<rparr>, \<lparr>x = Num 3, y = Num (- 4), z = Num 12\<rparr>]"
        "[Num 1, Num 10, Num 12]" "[Num 10, Num 12]"
        "\<lparr>x = Num 0, y = Num 0, z = Num 0\<rparr>" "\<lparr>x = Num 6, y = Num 0, z = Num 0\<rparr>" "Num 6"
        "Num 204.64"]
  by (simp add: js_index_def)

text \<open>
  Claim C10.  Exchanging the receiver and transmitter positions leaves the result
  unchanged, for every history, baseline and carrier frequency.
\<close>

theorem stations_symmetric:
  "calculatePositionBasedDoppler positions timestamps ecefRx ecefTx dRxTx fc =
   calculatePositionBasedDoppler positions timestamps ecefTx ecefRx dRxTx fc"
proof -
  have "delays_of positions ecefRx ecefTx dRxTx = delays_of positions ecefTx ecefRx dRxTx"
    by (simp add: delays_of_def delay_of_commute)
  then show ?thesis
    by (simp add: calculatePositionBasedDoppler_def)
qed

section \<open>The synthetic trajectory heads east\<close>

text \<open>
  Claim C6 says that the generated samples move west, with decreasing longitude, as
  the declared track of 270 degrees requires.  The loop adds the offset to the
  longitude: the eleven samples are taken at seconds 0 to 10, the first at the starting
  longitude, and each later one at a strictly greater longitude than the one before,
  that is, to the east.
\<close>

theorem trajectory_eastward:
  "trajectory lla2ecef =
     (map (\<lambda>k. lla2ecef lat (new_lon_at k) (ft2m alt)) [0..<11],
      map (\<lambda>k. Num (real k)) [0..<11]) \<and>
   track = Num 270 \<and> new_lon_at 0 = lon \<and>
   (\<forall>t. js_lt (new_lon_at t) (new_lon_at (Suc t)))"
proof -
  have "js_lt (new_lon_at t) (new_lon_at (Suc t))" for t
    using cos_lat_pos by (simp add: new_lon_at_value divide_strict_right_mono)
  moreover have "new_lon_at 0 = lon"
    by (simp add: new_lon_at_value lon_def)
  moreover have "trajectory lla2ecef =
     (map (\<lambda>k. lla2ecef lat (new_lon_at k) (ft2m alt)) [0..<11],
      map (\<lambda>k. Num (real k)) [0..<11])"
    unfolding trajectory_def by (subst trajectory_loop_closed) (simp_all only: append_Nil le0)
  ultimately show ?thesis
    unfolding track_def by blast
qed

section \<open>Missing kinematics\<close>

text \<open>
  Claim C8.  The velocity-based estimator returns \<open>null\<close> whenever the ground
  speed or the track of the aircraft record is absent, whatever the geometry and the
  carrier frequency are.
\<close>

theorem missing_kinematics_unavailable:
  "ground_speed_kn aircraft = None \<or> track_deg aircraft = None \<Longrightarrow>
   calculateDopplerFromVelocity aircraft aircraft_ecef ecefRx ecefTx dRxTar dTxTar fc = None"
  by (auto simp add: calculateDopplerFromVelocity_def split: option.splits)

theorem missing_kinematics_unavailable_witness:
  "track_deg \<lparr>ident = ''7c6b2d'',
      position = \<lparr>latitude_deg = Num (- 35), longitude_deg = Num 138.65, altitude_m = Num 9174.48\<rparr>,
      ground_speed_kn = Some (Num 88.5), track_deg = None, vertical_rate_fpm = Some (Num 0)\<rparr> = None \<and>
   calculateDopplerFromVelocity
     \<lparr>ident = ''7c6b2d'',
      position = \<lparr>latitude_deg = Num (- 35), longitude_deg = Num 138.65, altitude_m = Num 9174.48\<rparr>,
      ground_speed_kn = Some (Num 88.5), track_deg = None, vertical_rate_fpm = Some (Num 0)\<rparr>
     \<lparr>x = Num 3, y = Num 4, z = Num 0\<rparr>
     \<lparr>x = Num 0, y = Num 0, z = Num 0\<rparr> \<lparr>x = Num 6, y = Num 0, z = Num 0\<rparr>
     (Num 5) (Num 5) (Num 204.64) = None"
  using missing_kinematics_unavailable
    [of "\<lparr>ident = ''7c6b2d'',
      position = \<lparr>latitude_deg = Num (- 35), longitude_deg = Num 138.65, altitude_m = Num 9174.48\<rparr>,
      ground_speed_kn = Some (Num 88.5), track_deg = None, vertical_rate_fpm = Some (Num 0)\<rparr>"
     "\<lparr>x = Num 3, y = Num 4, z = Num 0\<rparr>"
     "\<lparr>x = Num 0, y = Num 0, z = Num 0\<rparr>" "\<lparr>x = Num 6, y = Num 0, z = Num 0\<rparr>"
     "Num 5" "Num 5" "Num 204.64"]
  by simp

end
